theory Spec2Isabelle
  imports Main "HOL-Library.Word"
begin

section \<open>Strings, errors and messages\<close>

text \<open>
  A JavaScript string is a sequence of UTF-16 code units; \<open>length\<close>, \<open>substring\<close> and
  \<open>substr\<close> count code units. \<open>js\<close> embeds an ASCII literal. The four Japanese
  literals of \<^verbatim>\<open>legalAgent.ts\<close> are given by their code units.
\<close>

type_synonym code_unit = "16 word"
type_synonym jsstring = "code_unit list"

definition js :: "string \<Rightarrow> jsstring" where
  "js s = map of_char s"

text \<open>\<^verbatim>\<open>s.substring(0, n)\<close> and \<^verbatim>\<open>s.substr(start, n)\<close> for non-negative
  arguments: both stop at the end of the string.\<close>

definition substring0 :: "nat \<Rightarrow> jsstring \<Rightarrow> jsstring" where
  "substring0 n s = take n s"

definition substr :: "nat \<Rightarrow> nat \<Rightarrow> jsstring \<Rightarrow> jsstring" where
  "substr start n s = take n (drop start s)"

text \<open>The decimal digits of a non-negative integer, as a template literal renders
  \<^verbatim>\<open>${Date.now()}\<close>.\<close>

definition digit_unit :: "nat \<Rightarrow> code_unit" where
  "digit_unit d = of_nat (48 + d)"

function decimal :: "nat \<Rightarrow> jsstring" where
  "decimal n = (if n < 10 then [digit_unit n] else decimal (n div 10) @ [digit_unit (n mod 10)])"
  by pat_completeness auto
termination
  by (relation "measure id") auto

declare decimal.simps [simp del]

text \<open>An \<^verbatim>\<open>Error\<close> object, observed through its \<^verbatim>\<open>message\<close>.\<close>

datatype js_error = Error (message: jsstring)

text \<open>
  A \<^verbatim>\<open>BaseMessage\<close>: what \<^verbatim>\<open>_getType()\<close> returns, and its
  \<^verbatim>\<open>content\<close>, which is a string or something else (an array of content blocks).
\<close>

datatype msg_type = System | Human | AI | Tool | Generic

datatype msg_content = StringContent jsstring | ComplexContent

datatype message = Message (mtype: msg_type) (content: msg_content)

definition HumanMessage :: "jsstring \<Rightarrow> message" where
  "HumanMessage query = Message Human (StringContent query)"

text \<open>
  A chunk of the model's stream is untyped (\<^verbatim>\<open>any\<close>): either not an array, or an array
  whose first element is falsy, an object carrying a \<^verbatim>\<open>content\<close> property, or
  any other truthy value.
\<close>

datatype js_value = Falsy | Object message | Other

datatype chunk = NonArray | Array "js_value list"

text \<open>The model's stream: finitely many chunks, then the end or an error.\<close>

datatype model_stream = Stream (chunks: "chunk list") (failure: "js_error option")

section \<open>Context trimming\<close>

definition maxContextMessages :: nat where
  "maxContextMessages = 10"

text \<open>\<^verbatim>\<open>Array.prototype.slice(start)\<close>: a negative start counts from the end.\<close>

definition slice_from :: "int \<Rightarrow> 'a list \<Rightarrow> 'a list" where
  "slice_from start xs =
     (let len = int (length xs);
          k = (if start < 0 then max (len + start) 0 else min start len)
      in drop (nat k) xs)"

text \<open>The body of \<^verbatim>\<open>trimMessages\<close>, with the field
  \<^verbatim>\<open>this.maxContextMessages\<close> as a parameter.\<close>

definition trimTo :: "nat \<Rightarrow> message list \<Rightarrow> message list" where
  "trimTo maxCount messages =
     (if length messages \<le> maxCount then messages
      else (let systemMessages = filter (\<lambda>msg. mtype msg = System) messages;
                recentMessages = slice_from (- int maxCount) messages
            in systemMessages @ recentMessages))"

definition trimMessages :: "message list \<Rightarrow> message list" where
  "trimMessages messages = trimTo maxContextMessages messages"

subsection \<open>Trimming on arrays held by reference\<close>

text \<open>
  Arrays are objects: a heap holds their contents by address. \<^verbatim>\<open>filter\<close>,
  \<^verbatim>\<open>slice\<close> and the spread \<^verbatim>\<open>[...a, ...b]\<close> read their operands and
  allocate the array they return.
\<close>

type_synonym ref = nat
type_synonym heap = "message list list"

definition deref :: "heap \<Rightarrow> ref \<Rightarrow> message list" where
  "deref h r = (if r < length h then h ! r else [])"

definition alloc :: "heap \<Rightarrow> message list \<Rightarrow> heap \<times> ref" where
  "alloc h xs = (h @ [xs], length h)"

definition trimMessages_ref :: "heap \<Rightarrow> ref \<Rightarrow> heap \<times> ref" where
  "trimMessages_ref h messages =
     (if length (deref h messages) \<le> maxContextMessages then (h, messages)
      else (let (h1, systemMessages) =
                  alloc h (filter (\<lambda>msg. mtype msg = System) (deref h messages));
                (h2, recentMessages) =
                  alloc h1 (slice_from (- int maxContextMessages) (deref h1 messages))
            in alloc h2 (deref h2 systemMessages @ deref h2 recentMessages)))"

text \<open>\<^verbatim>\<open>this.trimMessages([...sessionMessages])\<close>, as both public methods call it.\<close>

definition trimCopy :: "heap \<Rightarrow> ref \<Rightarrow> heap \<times> ref" where
  "trimCopy h sessionMessages =
     (let (h1, copy) = alloc h (deref h sessionMessages) in trimMessages_ref h1 copy)"

section \<open>Session identifiers\<close>

text \<open>
  \<^verbatim>\<open>`session_${Date.now()}_${Math.random().toString(36).substr(2, 9)}`\<close>. The clock
  reading and the base-36 rendering of the random number are inputs: \<open>random36\<close> is the
  string \<^verbatim>\<open>Math.random().toString(36)\<close>, for instance \<^verbatim>\<open>"0.i"\<close> for 0.5.
\<close>

definition generateDefaultSessionId :: "nat \<Rightarrow> jsstring \<Rightarrow> jsstring" where
  "generateDefaultSessionId now random36 =
     js ''session_'' @ decimal now @ js ''_'' @ substr 2 9 random36"

definition base36_digit :: "code_unit \<Rightarrow> bool" where
  "base36_digit u = ((0x30 \<le> u \<and> u \<le> 0x39) \<or> (0x61 \<le> u \<and> u \<le> 0x7A))"

section \<open>The session memory, the logger and the agent's state\<close>

text \<open>
  The class \<^verbatim>\<open>MemorySaverManager\<close> (imported from
  \<^verbatim>\<open>../memory/memorySaverManager\<close>) is not among the sources; the agent calls its
  \<^verbatim>\<open>getMessages\<close> and \<^verbatim>\<open>addMessage\<close>. A store maps a session identifier to the
  session's turns in insertion order.
\<close>

type_synonym session_store = "jsstring \<rightharpoonup> message list"

text \<open>Modelled from the spec: \<^verbatim>\<open>MemorySaverManager.getMessages\<close> is missing from the
  sources. Section 4.4: it lazily creates the session's message store if absent and returns
  its current contents, the full history in insertion order (section 4.1).\<close>

definition getMessages :: "session_store \<Rightarrow> jsstring \<Rightarrow> message list \<times> session_store" where
  "getMessages mem sessionId =
     (case mem sessionId of
        None \<Rightarrow> ([], mem(sessionId \<mapsto> []))
      | Some turns \<Rightarrow> (turns, mem))"

text \<open>Modelled from the spec: \<^verbatim>\<open>MemorySaverManager.addMessage\<close> is missing from the
  sources. Section 4.4: it lazily creates the session if absent and appends the turn to the
  end of the session's ordered sequence (section 4.1).\<close>

definition addMessage :: "session_store \<Rightarrow> jsstring \<Rightarrow> message \<Rightarrow> session_store" where
  "addMessage mem sessionId turn =
     (case mem sessionId of
        None \<Rightarrow> mem(sessionId \<mapsto> [turn])
      | Some turns \<Rightarrow> mem(sessionId \<mapsto> turns @ [turn]))"

text \<open>The turns stored for a session, read without creating it.\<close>

definition stored :: "session_store \<Rightarrow> jsstring \<Rightarrow> message list" where
  "stored mem sessionId = (case mem sessionId of None \<Rightarrow> [] | Some turns \<Rightarrow> turns)"

text \<open>\<^verbatim>\<open>Logger.info\<close> and \<^verbatim>\<open>Logger.error\<close> append an entry: its level, its text
  and its fields.\<close>

datatype log_level = Info | Err

datatype log_value = LStr jsstring | LNum nat

datatype log_entry =
  LogEntry (entry_level: log_level) (entry_text: jsstring)
    (entry_fields: "(string \<times> log_value) list")

record model_config =
  name :: jsstring
  provider :: jsstring
  baseUrl :: jsstring

record state =
  isInitialized :: bool
  modelConfig :: model_config
  sessionMemory :: session_store
  logged :: "log_entry list"

definition Logger_info :: "jsstring \<Rightarrow> (string \<times> log_value) list \<Rightarrow> state \<Rightarrow> state" where
  "Logger_info txt fs st = st\<lparr>logged := logged st @ [LogEntry Info txt fs]\<rparr>"

definition Logger_error :: "jsstring \<Rightarrow> (string \<times> log_value) list \<Rightarrow> state \<Rightarrow> state" where
  "Logger_error txt fs st = st\<lparr>logged := logged st @ [LogEntry Err txt fs]\<rparr>"

text \<open>
  What the external collaborators do during one call: whether \<^verbatim>\<open>initChatModel\<close> or
  \<^verbatim>\<open>createAgent\<close> throw, what \<^verbatim>\<open>this.agent.stream\<close> does with the request's
  messages (it throws, or returns a stream), the clock and the rendered random number.
\<close>

record env =
  initChatModel :: "js_error option"
  createAgent :: "js_error option"
  agent_stream :: "message list \<Rightarrow> js_error + model_stream"
  date_now :: nat
  random36 :: jsstring

section \<open>The agent\<close>

text \<open>
  \<^verbatim>\<open>initializeAgent\<close>: the model is created, then the agent; either step may throw,
  which the \<^verbatim>\<open>catch\<close> block logs and throws again. The assignment to
  \<^verbatim>\<open>process.env.OLLAMA_BASE_URL\<close> and the construction of the search tool, which
  nothing below reads, are left out.
\<close>

definition initializeAgent :: "env \<Rightarrow> state \<Rightarrow> js_error option \<times> state" where
  "initializeAgent e st =
     (let st1 = Logger_info (js ''Initializing LLM...'')
                  [(''model'', LStr (name (modelConfig st))),
                   (''provider'', LStr (provider (modelConfig st))),
                   (''baseUrl'', LStr (baseUrl (modelConfig st)))] st
      in case initChatModel e of
           Some err \<Rightarrow>
             (Some err, Logger_error (js ''Failed to initialize Legal Agent'')
                          [(''error'', LStr (message err))] st1)
         | None \<Rightarrow>
             (let st2 = Logger_info (js ''LLM initialized, creating agent...'') [] st1
              in case createAgent e of
                   Some err \<Rightarrow>
                     (Some err, Logger_error (js ''Failed to initialize Legal Agent'')
                                  [(''error'', LStr (message err))] st2)
                 | None \<Rightarrow>
                     (None, Logger_info
                              (js ''Legal Agent initialized successfully with model: ''
                                 @ name (modelConfig st)) []
                              (st2\<lparr>isInitialized := True\<rparr>))))"

text \<open>\<^verbatim>\<open>if (!this.isInitialized) { await this.initializeAgent(); }\<close>\<close>

definition ensureInitialized :: "env \<Rightarrow> state \<Rightarrow> js_error option \<times> state" where
  "ensureInitialized e st = (if \<not> isInitialized st then initializeAgent e st else (None, st))"

text \<open>\<^verbatim>\<open>sessionId || this.generateDefaultSessionId()\<close>: an absent and an empty
  identifier are both falsy.\<close>

definition effectiveSessionId :: "env \<Rightarrow> jsstring option \<Rightarrow> jsstring" where
  "effectiveSessionId e sessionId =
     (case sessionId of
        None \<Rightarrow> generateDefaultSessionId (date_now e) (random36 e)
      | Some s \<Rightarrow> if s = [] then generateDefaultSessionId (date_now e) (random36 e) else s)"

text \<open>The test both \<^verbatim>\<open>for await\<close> loops make on a chunk:
  \<^verbatim>\<open>Array.isArray(chunk) && chunk.length > 0\<close>, then with \<^verbatim>\<open>message = chunk[0]\<close>,
  \<^verbatim>\<open>message && typeof message.content === 'string'\<close>. It gives the text and the
  message when the test holds.\<close>

fun string_part :: "chunk \<Rightarrow> (jsstring \<times> message) option" where
  "string_part (Array (Object m # rest)) =
     (case content m of StringContent s \<Rightarrow> Some (s, m) | ComplexContent \<Rightarrow> None)"
| "string_part c = None"

text \<open>The body of both loops: \<^verbatim>\<open>fullResponse += message.content; aiMessage = message\<close>
  under that test.\<close>

fun accumulate :: "chunk \<Rightarrow> jsstring \<times> message option \<Rightarrow> jsstring \<times> message option" where
  "accumulate c (fullResponse, aiMessage) =
     (case string_part c of
        Some (s, m) \<Rightarrow> (fullResponse @ s, Some m)
      | None \<Rightarrow> (fullResponse, aiMessage))"

text \<open>The loop of \<^verbatim>\<open>processQuery\<close> over the chunks of a stream, from
  \<^verbatim>\<open>fullResponse = ''\<close> and \<^verbatim>\<open>aiMessage = null\<close>.\<close>

definition collect :: "chunk list \<Rightarrow> jsstring \<times> message option" where
  "collect cs = foldl (\<lambda>acc c. accumulate c acc) ([], None) cs"

text \<open>The literals
  \<^verbatim>\<open>kueri shori ni shippai shimashita: \<close> (query processing failed),
  \<^verbatim>\<open>sutoriimu shori ni shippai shimashita: \<close> (stream processing failed),
  \<^verbatim>\<open>kueri ga seijou ni shori saremashita\<close> (the query was processed) and
  \<^verbatim>\<open>kueri shori-chuu ni eraa ga hassei shimashita\<close> (an error occurred while processing
  the query).\<close>

definition query_failed_prefix :: jsstring where
  "query_failed_prefix =
     [0x30AF, 0x30A8, 0x30EA, 0x51E6, 0x7406, 0x306B, 0x5931, 0x6557, 0x3057, 0x307E, 0x3057,
      0x305F, 0x003A, 0x0020]"

definition stream_failed_prefix :: jsstring where
  "stream_failed_prefix =
     [0x30B9, 0x30C8, 0x30EA, 0x30FC, 0x30E0, 0x51E6, 0x7406, 0x306B, 0x5931, 0x6557, 0x3057,
      0x307E, 0x3057, 0x305F, 0x003A, 0x0020]"

definition query_done_text :: jsstring where
  "query_done_text =
     [0x30AF, 0x30A8, 0x30EA, 0x304C, 0x6B63, 0x5E38, 0x306B, 0x51E6, 0x7406, 0x3055, 0x308C,
      0x307E, 0x3057, 0x305F]"

definition query_error_text :: jsstring where
  "query_error_text =
     [0x30AF, 0x30A8, 0x30EA, 0x51E6, 0x7406, 0x4E2D, 0x306B, 0x30A8, 0x30E9, 0x30FC, 0x304C,
      0x767A, 0x751F, 0x3057, 0x307E, 0x3057, 0x305F]"

text \<open>The \<^verbatim>\<open>catch\<close> block of \<^verbatim>\<open>processQuery\<close>.\<close>

definition processQuery_catch :: "js_error \<Rightarrow> jsstring \<Rightarrow> state \<Rightarrow> (js_error + jsstring) \<times> state" where
  "processQuery_catch err query st =
     (Inl (Error (query_failed_prefix @ message err)),
      Logger_error query_error_text
        [(''error'', LStr (message err)), (''query'', LStr query)] st)"

definition processQuery ::
  "env \<Rightarrow> state \<Rightarrow> jsstring \<Rightarrow> jsstring option \<Rightarrow> (js_error + jsstring) \<times> state" where
  "processQuery e st query sessionId =
     (case ensureInitialized e st of
        (Some err, st0) \<Rightarrow> (Inl err, st0)
      | (None, st0) \<Rightarrow>
          (let effective = effectiveSessionId e sessionId;
               st1 = Logger_info (js ''Processing legal query with session'')
                       [(''query'', LStr (substring0 100 query @ js ''...'')),
                        (''sessionId'', LStr effective)] st0;
               (sessionMessages, mem1) = getMessages (sessionMemory st1) effective;
               st2 = st1\<lparr>sessionMemory := mem1\<rparr>;
               trimmedMessages = trimMessages sessionMessages;
               newUserMessage = HumanMessage query;
               allMessages = trimmedMessages @ [newUserMessage]
           in case agent_stream e allMessages of
                Inl err \<Rightarrow> processQuery_catch err query st2
              | Inr stream \<Rightarrow>
                  (let (fullResponse, aiMessage) = collect (chunks stream)
                   in case failure stream of
                        Some err \<Rightarrow> processQuery_catch err query st2
                      | None \<Rightarrow>
                          (let mem2 = addMessage (sessionMemory st2) effective newUserMessage;
                               mem3 = (case aiMessage of
                                         None \<Rightarrow> mem2
                                       | Some m \<Rightarrow> addMessage mem2 effective m);
                               (count, mem4) = getMessages mem3 effective;
                               st3 = Logger_info query_done_text
                                       [(''responseLength'', LNum (length fullResponse)),
                                        (''sessionId'', LStr effective),
                                        (''messageCount'', LNum (length count))]
                                       (st2\<lparr>sessionMemory := mem4\<rparr>)
                           in (Inr fullResponse, st3)))))"

subsection \<open>The monitored stream\<close>

text \<open>
  \<^verbatim>\<open>monitorStream\<close> is an async generator: calling it runs none of its body. The
  generator object is suspended at its start, suspended at \<^verbatim>\<open>yield chunk\<close>, or
  completed; it holds the rest of the model's stream and the two local variables.
\<close>

datatype gen_phase = SuspendedStart | SuspendedYield chunk | Completed

record monitor =
  phase :: gen_phase
  m_stream :: model_stream
  m_sessionId :: jsstring
  m_userMessage :: message
  m_fullResponse :: jsstring
  m_aiMessage :: "message option"

definition monitorStream :: "model_stream \<Rightarrow> jsstring \<Rightarrow> message \<Rightarrow> monitor" where
  "monitorStream stream sessionId userMessage =
     \<lparr>phase = SuspendedStart, m_stream = stream, m_sessionId = sessionId,
      m_userMessage = userMessage, m_fullResponse = [], m_aiMessage = None\<rparr>"

datatype step = Yield chunk | Return | Throw js_error

text \<open>The head of the \<^verbatim>\<open>for await\<close> loop and what follows the loop: the next chunk is
  yielded; at the end of the stream the assistant message, if any, is saved; an error of the
  stream is logged and thrown again.\<close>

definition advance :: "monitor \<Rightarrow> state \<Rightarrow> step \<times> monitor \<times> state" where
  "advance g st =
     (case chunks (m_stream g) of
        c # cs \<Rightarrow>
          (Yield c,
           g\<lparr>phase := SuspendedYield c, m_stream := Stream cs (failure (m_stream g))\<rparr>, st)
      | [] \<Rightarrow>
          (case failure (m_stream g) of
             Some err \<Rightarrow>
               (Throw err, g\<lparr>phase := Completed\<rparr>,
                Logger_error (js ''Stream monitoring error'')
                  [(''error'', LStr (message err)), (''sessionId'', LStr (m_sessionId g))] st)
           | None \<Rightarrow>
               (let st1 = (case m_aiMessage g of
                             None \<Rightarrow> st
                           | Some m \<Rightarrow>
                               st\<lparr>sessionMemory :=
                                    addMessage (sessionMemory st) (m_sessionId g) m\<rparr>)
                in (Return, g\<lparr>phase := Completed\<rparr>,
                    Logger_info (js ''Stream completed and messages saved'')
                      [(''sessionId'', LStr (m_sessionId g)),
                       (''responseLength'', LNum (length (m_fullResponse g)))] st1))))"

text \<open>\<^verbatim>\<open>next()\<close> on the generator object.\<close>

definition monitor_next :: "monitor \<Rightarrow> state \<Rightarrow> step \<times> monitor \<times> state" where
  "monitor_next g st =
     (case phase g of
        SuspendedStart \<Rightarrow>
          advance g
            (st\<lparr>sessionMemory :=
                 addMessage (sessionMemory st) (m_sessionId g) (m_userMessage g)\<rparr>)
      | SuspendedYield c \<Rightarrow>
          (let (r, a) = accumulate c (m_fullResponse g, m_aiMessage g)
           in advance (g\<lparr>m_fullResponse := r, m_aiMessage := a\<rparr>) st)
      | Completed \<Rightarrow> (Return, g, st))"

text \<open>\<^verbatim>\<open>return()\<close> on the generator object, which a consumer's \<^verbatim>\<open>break\<close> calls:
  the body has no \<^verbatim>\<open>finally\<close>, so nothing more of it runs.\<close>

definition monitor_return :: "monitor \<Rightarrow> state \<Rightarrow> monitor \<times> state" where
  "monitor_return g st = (g\<lparr>phase := Completed\<rparr>, st)"

text \<open>A consumer that takes at most \<open>k\<close> chunks and then stops iterating:
  \<^verbatim>\<open>for await (const c of stream) { ...; if (++i === k) break; }\<close>.\<close>

datatype outcome = Exhausted | Failed js_error | Abandoned

fun consume :: "nat \<Rightarrow> monitor \<Rightarrow> state \<Rightarrow> (chunk list \<times> outcome) \<times> monitor \<times> state" where
  "consume 0 g st = (case monitor_return g st of (g', st') \<Rightarrow> (([], Abandoned), g', st'))"
| "consume (Suc k) g st =
     (case monitor_next g st of
        (Yield c, g', st') \<Rightarrow>
          (case consume k g' st' of ((cs, out), g'', st'') \<Rightarrow> ((c # cs, out), g'', st''))
      | (Return, g', st') \<Rightarrow> (([], Exhausted), g', st')
      | (Throw err, g', st') \<Rightarrow> (([], Failed err), g', st'))"

definition getStream ::
  "env \<Rightarrow> state \<Rightarrow> jsstring \<Rightarrow> jsstring option \<Rightarrow> (js_error + monitor) \<times> state" where
  "getStream e st query sessionId =
     (case ensureInitialized e st of
        (Some err, st0) \<Rightarrow> (Inl err, st0)
      | (None, st0) \<Rightarrow>
          (let effective = effectiveSessionId e sessionId;
               st1 = Logger_info (js ''Processing legal query stream with session'')
                       [(''query'', LStr (substring0 100 query @ js ''...'')),
                        (''sessionId'', LStr effective)] st0;
               (sessionMessages, mem1) = getMessages (sessionMemory st1) effective;
               st2 = st1\<lparr>sessionMemory := mem1\<rparr>;
               trimmedMessages = trimMessages sessionMessages;
               newUserMessage = HumanMessage query;
               allMessages = trimmedMessages @ [newUserMessage]
           in case agent_stream e allMessages of
                Inl err \<Rightarrow>
                  (Inl (Error (stream_failed_prefix @ message err)),
                   Logger_error (js ''Error processing stream query'')
                     [(''error'', LStr (message err)), (''query'', LStr query)] st2)
              | Inr stream \<Rightarrow> (Inr (monitorStream stream effective newUserMessage), st2)))"

subsection \<open>Auxiliary notions for stating the properties\<close>

text \<open>What \<^verbatim>\<open>this.agent.stream\<close> answers to the messages a call assembles: the trimmed
  history of the effective session followed by the new user message.\<close>

definition request :: "env \<Rightarrow> state \<Rightarrow> jsstring \<Rightarrow> jsstring option \<Rightarrow> js_error + model_stream" where
  "request e st query sessionId =
     agent_stream e
       (trimMessages (stored (sessionMemory st) (effectiveSessionId e sessionId))
          @ [HumanMessage query])"

text \<open>The state when \<^verbatim>\<open>this.agent.stream\<close> is called: initialisation has been seen to,
  the entry has been logged under \<open>label\<close>, and reading the history has created the session
  if it was absent.\<close>

definition entered :: "string \<Rightarrow> env \<Rightarrow> state \<Rightarrow> jsstring \<Rightarrow> jsstring option \<Rightarrow> state" where
  "entered label e st query sessionId =
     (Logger_info (js label)
        [(''query'', LStr (substring0 100 query @ js ''...'')),
         (''sessionId'', LStr (effectiveSessionId e sessionId))]
        (snd (ensureInitialized e st)))
     \<lparr>sessionMemory := snd (getMessages (sessionMemory st) (effectiveSessionId e sessionId))\<rparr>"

text \<open>The model invocation or the streaming of a call fails with \<open>err\<close>:
  \<^verbatim>\<open>this.agent.stream\<close> throws it, or the stream it returns ends with it.\<close>

definition fails_with :: "env \<Rightarrow> state \<Rightarrow> jsstring \<Rightarrow> jsstring option \<Rightarrow> js_error \<Rightarrow> bool" where
  "fails_with e st query sessionId err =
     (case request e st query sessionId of
        Inl thrown \<Rightarrow> thrown = err
      | Inr stream \<Rightarrow> failure stream = Some err)"

text \<open>How a consumer that keeps iterating sees a stream end.\<close>

definition ending :: "js_error option \<Rightarrow> outcome" where
  "ending f = (case f of None \<Rightarrow> Exhausted | Some err \<Rightarrow> Failed err)"

text \<open>Concrete inputs: a turn with ASCII text, an initialised agent with an empty memory,
  and collaborators that answer every request the same way.\<close>

definition turn :: "msg_type \<Rightarrow> string \<Rightarrow> message" where
  "turn t s = Message t (StringContent (js s))"

definition ready_state :: state where
  "ready_state =
     \<lparr>isInitialized = True,
      modelConfig = \<lparr>name = js ''gpt-oss:20b'', provider = js ''ollama'',
                     baseUrl = js ''http://localhost:11434/v1''\<rparr>,
      sessionMemory = Map.empty, logged = []\<rparr>"

definition scripted :: "js_error + model_stream \<Rightarrow> env" where
  "scripted answer =
     \<lparr>initChatModel = None, createAgent = None, agent_stream = (\<lambda>messages. answer),
      date_now = 1700000000000, random36 = js ''0.i''\<rparr>"

section \<open>Trimming: the short and the long history\<close>

lemma slice_from_neg:
  "0 < n \<Longrightarrow> slice_from (- int n) xs = drop (length xs - n) xs"
  by (auto simp: slice_from_def Let_def max_def nat_diff_distrib')

lemma trimTo_short: "length messages \<le> maxCount \<Longrightarrow> trimTo maxCount messages = messages"
  by (simp add: trimTo_def)

lemma trimTo_long:
  assumes "0 < maxCount" and "maxCount < length messages"
  shows "trimTo maxCount messages =
           filter (\<lambda>msg. mtype msg = System) messages
             @ drop (length messages - maxCount) messages"
  using assms by (simp add: trimTo_def slice_from_neg)

lemma trimMessages_long:
  assumes "10 < length messages"
  shows "trimMessages messages =
           filter (\<lambda>msg. mtype msg = System) messages @ drop (length messages - 10) messages"
  using assms by (simp add: trimMessages_def maxContextMessages_def trimTo_long)

lemma count_list_filter_in: "P m \<Longrightarrow> count_list (filter P xs) m = count_list xs m"
  by (induction xs) auto

lemma trim_spec_example:
  "trimTo 4 [turn System ''system'', turn Human ''u1'', turn AI ''a1'', turn Human ''u2'',
             turn AI ''a2'', turn Human ''u3'']
     = [turn System ''system'', turn AI ''a1'', turn Human ''u2'', turn AI ''a2'',
        turn Human ''u3'']"
  by (simp add: trimTo_long turn_def)

text \<open>
  C3. A history of at most \<open>maxCount\<close> turns is returned unchanged, in its order: by the
  method's body for any bound, by \<open>trimMessages\<close> for the configured bound 10, and as the
  very same array (nothing allocated) when the history is held by reference.
\<close>

theorem trim_identity:
  "(length messages \<le> maxCount \<longrightarrow> trimTo maxCount messages = messages) \<and>
   (length messages \<le> 10 \<longrightarrow> trimMessages messages = messages) \<and>
   (length (deref h r) \<le> 10 \<longrightarrow> trimMessages_ref h r = (h, r))"
  by (simp add: trimTo_short trimMessages_def maxContextMessages_def trimMessages_ref_def)

theorem trim_identity_witness:
  "trimTo 4 [turn Human ''u1'', turn AI ''a1''] = [turn Human ''u1'', turn AI ''a1''] \<and>
   trimMessages [turn Human ''u1'', turn AI ''a1''] = [turn Human ''u1'', turn AI ''a1''] \<and>
   trimMessages_ref [[turn Human ''u1'', turn AI ''a1'']] 0
     = ([[turn Human ''u1'', turn AI ''a1'']], 0)"
  using trim_identity [of "[turn Human ''u1'', turn AI ''a1'']" 4
      "[[turn Human ''u1'', turn AI ''a1'']]" 0]
  by (simp add: deref_def)

text \<open>
  C1, as amended. A history of more than 10 turns is trimmed to its system turns, in their
  order, followed by its last 10 turns, in their order, with no deduplication: a system turn
  occurs in the result as often as in the history plus as often as among the last 10 turns.
  The same holds of the method's body for any positive bound. For the history
  \<open>[system, u1, a1, u2, a2, u3]\<close> and the bound 4 the result is
  \<open>[system, a1, u2, a2, u3]\<close>, of length 5; the system turn is not among the last 4
  turns and occurs once.
\<close>

theorem trim_system_then_recent:
  "(0 < maxCount \<and> maxCount < length messages \<longrightarrow>
      trimTo maxCount messages =
        filter (\<lambda>msg. mtype msg = System) messages
          @ drop (length messages - maxCount) messages) \<and>
   (10 < length messages \<longrightarrow>
      trimMessages messages =
        filter (\<lambda>msg. mtype msg = System) messages @ drop (length messages - 10) messages) \<and>
   (10 < length messages \<and> mtype m = System \<longrightarrow>
      count_list (trimMessages messages) m =
        count_list messages m + count_list (drop (length messages - 10) messages) m) \<and>
   trimTo 4 [turn System ''system'', turn Human ''u1'', turn AI ''a1'', turn Human ''u2'',
             turn AI ''a2'', turn Human ''u3'']
     = [turn System ''system'', turn AI ''a1'', turn Human ''u2'', turn AI ''a2'',
        turn Human ''u3''] \<and>
   length (trimTo 4 [turn System ''system'', turn Human ''u1'', turn AI ''a1'',
                     turn Human ''u2'', turn AI ''a2'', turn Human ''u3'']) = 5 \<and>
   count_list (trimTo 4 [turn System ''system'', turn Human ''u1'', turn AI ''a1'',
                         turn Human ''u2'', turn AI ''a2'', turn Human ''u3''])
     (turn System ''system'') = 1"
proof -
  have general: "0 < maxCount \<and> maxCount < length messages \<longrightarrow>
      trimTo maxCount messages =
        filter (\<lambda>msg. mtype msg = System) messages
          @ drop (length messages - maxCount) messages"
    by (simp add: trimTo_long)
  have fixed: "10 < length messages \<longrightarrow>
      trimMessages messages =
        filter (\<lambda>msg. mtype msg = System) messages @ drop (length messages - 10) messages"
    by (simp add: trimMessages_long)
  have twice: "10 < length messages \<and> mtype m = System \<longrightarrow>
      count_list (trimMessages messages) m =
        count_list messages m + count_list (drop (length messages - 10) messages) m"
    by (simp add: trimMessages_long count_list_filter_in)
  show ?thesis
    using general fixed twice by (simp add: trim_spec_example) (simp add: turn_def)
qed

theorem trim_system_then_recent_witness:
  "trimMessages
     [turn Human ''u1'', turn System ''rules'', turn AI ''a1'', turn Human ''u2'', turn AI ''a2'',
      turn Human ''u3'', turn AI ''a3'', turn Human ''u4'', turn AI ''a4'', turn Human ''u5'',
      turn AI ''a5'']
   = [turn System ''rules'',
      turn System ''rules'', turn AI ''a1'', turn Human ''u2'', turn AI ''a2'',
      turn Human ''u3'', turn AI ''a3'', turn Human ''u4'', turn AI ''a4'', turn Human ''u5'',
      turn AI ''a5''] \<and>
   count_list
     (trimMessages
        [turn Human ''u1'', turn System ''rules'', turn AI ''a1'', turn Human ''u2'',
         turn AI ''a2'', turn Human ''u3'', turn AI ''a3'', turn Human ''u4'', turn AI ''a4'',
         turn Human ''u5'', turn AI ''a5''])
     (turn System ''rules'') = 2 \<and>
   trimTo 4 [turn Human ''u1'', turn AI ''a1'', turn System ''rules'', turn Human ''u2'',
             turn AI ''a2'', turn Human ''u3'']
     = [turn System ''rules'',
        turn System ''rules'', turn Human ''u2'', turn AI ''a2'', turn Human ''u3'']"
  using trim_system_then_recent
    [of 4 "[turn Human ''u1'', turn AI ''a1'', turn System ''rules'', turn Human ''u2'',
             turn AI ''a2'', turn Human ''u3'']" "turn System ''rules''"]
    trim_system_then_recent
    [of 4 "[turn Human ''u1'', turn System ''rules'', turn AI ''a1'', turn Human ''u2'',
            turn AI ''a2'', turn Human ''u3'', turn AI ''a3'', turn Human ''u4'', turn AI ''a4'',
            turn Human ''u5'', turn AI ''a5'']" "turn System ''rules''"]
  by (simp add: turn_def)

text \<open>The claim as it was stated has the system turn of that example twice in the result.\<close>

theorem trim_example_counterexample:
  "trimTo 4 [turn System ''system'', turn Human ''u1'', turn AI ''a1'', turn Human ''u2'',
             turn AI ''a2'', turn Human ''u3'']
     = [turn System ''system'', turn AI ''a1'', turn Human ''u2'', turn AI ''a2'',
        turn Human ''u3''] \<and>
   count_list (trimTo 4 [turn System ''system'', turn Human ''u1'', turn AI ''a1'',
                         turn Human ''u2'', turn AI ''a2'', turn Human ''u3''])
     (turn System ''system'') \<noteq> 2"
  by (simp add: trim_spec_example) (simp add: turn_def)

section \<open>Trimming leaves the arrays it reads as they were\<close>

lemma deref_append_old: "r < length h \<Longrightarrow> deref (h @ fresh) r = deref h r"
  by (simp add: deref_def nth_append)

lemma trimMessages_ref_extends: "\<exists>fresh. fst (trimMessages_ref h messages) = h @ fresh"
  by (simp add: trimMessages_ref_def alloc_def Let_def)

lemma trimMessages_ref_value:
  "deref (fst (trimMessages_ref h messages)) (snd (trimMessages_ref h messages))
     = trimMessages (deref h messages)"
  by (simp add: trimMessages_ref_def trimMessages_def trimTo_def alloc_def Let_def deref_def
      nth_append)

lemma trimCopy_eq:
  "trimCopy h sessionMessages = trimMessages_ref (h @ [deref h sessionMessages]) (length h)"
  by (simp add: trimCopy_def alloc_def)

lemma trimCopy_extends: "\<exists>fresh. fst (trimCopy h sessionMessages) = h @ fresh"
proof -
  obtain fresh where
    "fst (trimMessages_ref (h @ [deref h sessionMessages]) (length h))
       = (h @ [deref h sessionMessages]) @ fresh"
    using trimMessages_ref_extends by blast
  then show ?thesis
    by (simp add: trimCopy_eq)
qed

lemma trimCopy_value:
  "deref (fst (trimCopy h sessionMessages)) (snd (trimCopy h sessionMessages))
     = trimMessages (deref h sessionMessages)"
proof -
  have "deref (h @ [deref h sessionMessages]) (length h) = deref h sessionMessages"
    by (simp add: deref_def)
  then show ?thesis
    using trimMessages_ref_value [of "h @ [deref h sessionMessages]" "length h"]
    by (simp add: trimCopy_eq)
qed

text \<open>
  C10. \<open>trimMessages\<close> writes to no array that exists when it is called: afterwards every
  address of the heap, its argument's among them, holds the list of turns it held before,
  and the array returned holds the trimmed list. The same is true of
  \<^verbatim>\<open>this.trimMessages([...sessionMessages])\<close>, so the history a request reads from the
  session is as it was once the request has trimmed it.
\<close>

theorem trimMessages_frame:
  "(\<forall>r. r < length h \<longrightarrow> deref (fst (trimMessages_ref h messages)) r = deref h r) \<and>
   deref (fst (trimMessages_ref h messages)) (snd (trimMessages_ref h messages))
     = trimMessages (deref h messages) \<and>
   (\<forall>r. r < length h \<longrightarrow> deref (fst (trimCopy h sessionMessages)) r = deref h r) \<and>
   deref (fst (trimCopy h sessionMessages)) (snd (trimCopy h sessionMessages))
     = trimMessages (deref h sessionMessages)"
proof -
  obtain fresh where a: "fst (trimMessages_ref h messages) = h @ fresh"
    using trimMessages_ref_extends by blast
  obtain fresh' where b: "fst (trimCopy h sessionMessages) = h @ fresh'"
    using trimCopy_extends by blast
  show ?thesis
    by (simp add: a b deref_append_old trimMessages_ref_value [of h messages, unfolded a]
        trimCopy_value [of h sessionMessages, unfolded b])
qed

theorem trimMessages_frame_witness:
  "deref (fst (trimMessages_ref
       [[turn Human ''u1'', turn System ''rules'', turn AI ''a1'', turn Human ''u2'',
         turn AI ''a2'', turn Human ''u3'', turn AI ''a3'', turn Human ''u4'', turn AI ''a4'',
         turn Human ''u5'', turn AI ''a5'']] 0)) 0
     = [turn Human ''u1'', turn System ''rules'', turn AI ''a1'', turn Human ''u2'',
        turn AI ''a2'', turn Human ''u3'', turn AI ''a3'', turn Human ''u4'', turn AI ''a4'',
        turn Human ''u5'', turn AI ''a5''] \<and>
   deref (fst (trimCopy
       [[turn Human ''u1'', turn System ''rules'', turn AI ''a1'', turn Human ''u2'',
         turn AI ''a2'', turn Human ''u3'', turn AI ''a3'', turn Human ''u4'', turn AI ''a4'',
         turn Human ''u5'', turn AI ''a5'']] 0)) 0
     = [turn Human ''u1'', turn System ''rules'', turn AI ''a1'', turn Human ''u2'',
        turn AI ''a2'', turn Human ''u3'', turn AI ''a3'', turn Human ''u4'', turn AI ''a4'',
        turn Human ''u5'', turn AI ''a5'']"
  using trimMessages_frame
    [of "[[turn Human ''u1'', turn System ''rules'', turn AI ''a1'', turn Human ''u2'',
           turn AI ''a2'', turn Human ''u3'', turn AI ''a3'', turn Human ''u4'', turn AI ''a4'',
           turn Human ''u5'', turn AI ''a5'']]" 0 0]
  by (simp add: deref_def)

section \<open>The generated session identifier\<close>

lemma digit_unit_range: "d < 10 \<Longrightarrow> 0x30 \<le> digit_unit d \<and> digit_unit d \<le> 0x39"
proof -
  assume "d < 10"
  then have "d \<in> {0, 1, 2, 3, 4, 5, 6, 7, 8, 9}"
    by auto
  then show ?thesis
    by (auto simp: digit_unit_def)
qed

lemma decimal_digits: "\<forall>u \<in> set (decimal n). 0x30 \<le> u \<and> u \<le> 0x39"
proof (induction n rule: decimal.induct)
  case (1 n)
  show ?case
  proof (cases "n < 10")
    case True
    then show ?thesis
      using digit_unit_range [of n] by (simp add: decimal.simps [of n])
  next
    case False
    have "n mod 10 < 10"
      by simp
    then show ?thesis
      using False "1.IH" digit_unit_range [of "n mod 10"]
      by (simp add: decimal.simps [of n])
  qed
qed

lemma base36_take: "list_all base36_digit ds \<Longrightarrow> list_all base36_digit (take n ds)"
  by (auto simp: list_all_iff dest: in_set_takeD)

text \<open>
  C5, as amended. Called without a session identifier (absent or empty), both methods use
  the generated one: \<open>session_\<close>, the decimal digits of the clock's milliseconds, an
  underscore, and up to 9 code units of the base-36 rendering of the random number from its
  index 2 on. The suffix has 9 code units exactly when the rendering has at least 11, fewer
  otherwise; where the rendering is \<open>0.\<close> followed by base-36 digits, the suffix consists
  of the first of these digits, each of them \<open>0-9\<close> or \<open>a-z\<close>.
\<close>

theorem session_id_format:
  "effectiveSessionId e None = generateDefaultSessionId (date_now e) (random36 e) \<and>
   effectiveSessionId e (Some []) = generateDefaultSessionId (date_now e) (random36 e) \<and>
   generateDefaultSessionId now rendered
     = js ''session_'' @ decimal now @ js ''_'' @ substr 2 9 rendered \<and>
   (\<forall>u \<in> set (decimal now). 0x30 \<le> u \<and> u \<le> 0x39) \<and>
   length (substr 2 9 rendered) = min 9 (length rendered - 2) \<and>
   substr 2 9 (js ''0.'' @ ds) = take 9 ds \<and>
   (list_all base36_digit ds \<longrightarrow> list_all base36_digit (substr 2 9 (js ''0.'' @ ds)))"
  using decimal_digits [of now]
  by (simp add: effectiveSessionId_def generateDefaultSessionId_def substr_def js_def
      base36_take min.commute)

theorem session_id_format_witness:
  "generateDefaultSessionId 1700000000000 (js ''0.4fzyo82mvyr'')
     = js ''session_1700000000000_4fzyo82mv'' \<and>
   length (substr 2 9 (js ''0.4fzyo82mvyr'')) = 9 \<and>
   list_all base36_digit (substr 2 9 (js ''0.4fzyo82mvyr''))"
  using session_id_format [of "scripted (Inl (Error []))" 1700000000000 "js ''0.4fzyo82mvyr''"
      "js ''4fzyo82mvyr''"]
  by (simp add: js_def decimal.simps digit_unit_def base36_digit_def)

text \<open>The claim as it was stated gives every generated identifier a suffix of exactly 9
  characters; the rendering \<open>0.i\<close> of the random number 0.5 leaves one.\<close>

theorem session_id_counterexample:
  "generateDefaultSessionId 1700000000000 (js ''0.i'') = js ''session_1700000000000_i'' \<and>
   \<not> (\<exists>suffix. length suffix = 9 \<and>
         generateDefaultSessionId 1700000000000 (js ''0.i'')
           = js ''session_'' @ decimal 1700000000000 @ js ''_'' @ suffix)"
  by (auto simp: generateDefaultSessionId_def substr_def js_def decimal.simps digit_unit_def)

section \<open>The session memory\<close>

lemma getMessages_fst: "fst (getMessages mem sid) = stored mem sid"
  by (simp add: getMessages_def stored_def split: option.splits)

lemma getMessages_stored: "stored (snd (getMessages mem sid)) s = stored mem s"
  by (simp add: getMessages_def stored_def split: option.splits)

lemma addMessage_stored:
  "stored (addMessage mem sid m) s = (if s = sid then stored mem sid @ [m] else stored mem s)"
  by (simp add: addMessage_def stored_def split: option.splits)

lemma initializeAgent_memory: "sessionMemory (snd (initializeAgent e st)) = sessionMemory st"
  by (simp add: initializeAgent_def Logger_info_def Logger_error_def Let_def
      split: option.splits)

lemma ensureInitialized_memory: "sessionMemory (snd (ensureInitialized e st)) = sessionMemory st"
  by (simp add: ensureInitialized_def initializeAgent_memory)

lemma entered_stored:
  "stored (sessionMemory (entered label e st query sessionId)) s = stored (sessionMemory st) s"
  by (simp add: entered_def getMessages_stored)

lemma entered_logged:
  "logged (entered label e st query sessionId) =
     logged (snd (ensureInitialized e st)) @
       [LogEntry Info (js label)
          [(''query'', LStr (substring0 100 query @ js ''...'')),
           (''sessionId'', LStr (effectiveSessionId e sessionId))]]"
  by (simp add: entered_def Logger_info_def)

section \<open>The loop over the chunks\<close>

lemma accumulate_skip: "string_part c = None \<Longrightarrow> accumulate c acc = acc"
  by (cases acc) simp

lemma foldl_accumulate_skip:
  "\<forall>c \<in> set cs. string_part c = None \<Longrightarrow> foldl (\<lambda>acc c. accumulate c acc) acc cs = acc"
  by (induction cs arbitrary: acc) (simp_all add: accumulate_skip)

lemma collect_no_string: "\<forall>c \<in> set cs. string_part c = None \<Longrightarrow> collect cs = ([], None)"
  by (simp add: collect_def foldl_accumulate_skip)

lemma collect_snoc: "collect (cs @ [c]) = accumulate c (collect cs)"
  by (simp add: collect_def)

text \<open>What the loop leaves in its two variables: the texts of the chunks that pass the
  test, concatenated, and the message of the last such chunk.\<close>

lemma collect_parts:
  "collect cs =
     (concat (map fst (List.map_filter string_part cs)),
      if List.map_filter string_part cs = [] then None
      else Some (snd (last (List.map_filter string_part cs))))"
proof (induction cs rule: rev_induct)
  case Nil
  then show ?case by (simp add: collect_def)
next
  case (snoc c cs)
  show ?case
  proof (cases "string_part c")
    case None
    then show ?thesis
      using snoc by (simp add: collect_snoc map_filter_def)
  next
    case (Some p)
    then show ?thesis
      using snoc by (cases p) (simp add: collect_snoc map_filter_def)
  qed
qed

section \<open>The two public methods, once initialisation has been seen to\<close>

lemma processQuery_uninitialised:
  assumes "fst (ensureInitialized e st) = Some err"
  shows "processQuery e st query sessionId = (Inl err, snd (ensureInitialized e st))"
  using assms by (cases "ensureInitialized e st") (simp add: processQuery_def)

lemma getStream_uninitialised:
  assumes "fst (ensureInitialized e st) = Some err"
  shows "getStream e st query sessionId = (Inl err, snd (ensureInitialized e st))"
  using assms by (cases "ensureInitialized e st") (simp add: getStream_def)

lemma processQuery_unfold:
  assumes "fst (ensureInitialized e st) = None"
  shows "processQuery e st query sessionId =
    (case request e st query sessionId of
       Inl err \<Rightarrow>
         processQuery_catch err query
           (entered ''Processing legal query with session'' e st query sessionId)
     | Inr stream \<Rightarrow>
        (case failure stream of
           Some err \<Rightarrow>
             processQuery_catch err query
               (entered ''Processing legal query with session'' e st query sessionId)
         | None \<Rightarrow>
            (let st2 = entered ''Processing legal query with session'' e st query sessionId;
                 effective = effectiveSessionId e sessionId;
                 mem2 = addMessage (sessionMemory st2) effective (HumanMessage query);
                 mem3 = (case snd (collect (chunks stream)) of
                           None \<Rightarrow> mem2
                         | Some m \<Rightarrow> addMessage mem2 effective m)
             in (Inr (fst (collect (chunks stream))),
                 Logger_info query_done_text
                   [(''responseLength'', LNum (length (fst (collect (chunks stream))))),
                    (''sessionId'', LStr effective),
                    (''messageCount'', LNum (length (stored mem3 effective)))]
                   (st2\<lparr>sessionMemory := snd (getMessages mem3 effective)\<rparr>)))))"
proof -
  obtain st0 where i: "ensureInitialized e st = (None, st0)"
    using assms(1) by (cases "ensureInitialized e st") auto
  have m: "sessionMemory st0 = sessionMemory st"
    using ensureInitialized_memory [of e st] i by simp
  show ?thesis
    unfolding processQuery_def i request_def entered_def
    by (simp add: Let_def case_prod_beta getMessages_fst m Logger_info_def
        split: sum.splits option.splits)
qed

lemma getStream_unfold:
  assumes "fst (ensureInitialized e st) = None"
  shows "getStream e st query sessionId =
    (case request e st query sessionId of
       Inl err \<Rightarrow>
         (Inl (Error (stream_failed_prefix @ message err)),
          Logger_error (js ''Error processing stream query'')
            [(''error'', LStr (message err)), (''query'', LStr query)]
            (entered ''Processing legal query stream with session'' e st query sessionId))
     | Inr stream \<Rightarrow>
         (Inr (monitorStream stream (effectiveSessionId e sessionId) (HumanMessage query)),
          entered ''Processing legal query stream with session'' e st query sessionId))"
proof -
  obtain st0 where i: "ensureInitialized e st = (None, st0)"
    using assms(1) by (cases "ensureInitialized e st") auto
  have m: "sessionMemory st0 = sessionMemory st"
    using ensureInitialized_memory [of e st] i by simp
  show ?thesis
    unfolding getStream_def i request_def entered_def
    by (simp add: Let_def case_prod_beta getMessages_fst m Logger_info_def
        split: sum.splits option.splits)
qed

lemma processQuery_failure:
  assumes "fst (ensureInitialized e st) = None" and "fails_with e st query sessionId err"
  shows "processQuery e st query sessionId =
           processQuery_catch err query
             (entered ''Processing legal query with session'' e st query sessionId)"
  using assms(2)
  by (auto simp: processQuery_unfold [OF assms(1)] fails_with_def split: sum.splits)

lemma processQuery_success:
  assumes "fst (ensureInitialized e st) = None"
    and "request e st query sessionId = Inr (Stream cs None)"
  shows "fst (processQuery e st query sessionId) = Inr (fst (collect cs))"
    and "stored (sessionMemory (snd (processQuery e st query sessionId))) s =
           (if s = effectiveSessionId e sessionId
            then stored (sessionMemory st) s @ HumanMessage query #
                   (case snd (collect cs) of None \<Rightarrow> [] | Some m \<Rightarrow> [m])
            else stored (sessionMemory st) s)"
  by (simp_all add: processQuery_unfold [OF assms(1)] assms(2) Let_def Logger_info_def
      getMessages_stored addMessage_stored entered_stored split: option.splits)

lemma getStream_returns:
  assumes "getStream e st query sessionId = (Inr g, st1)"
  shows "fst (ensureInitialized e st) = None"
    and "\<exists>stream. request e st query sessionId = Inr stream \<and>
           g = monitorStream stream (effectiveSessionId e sessionId) (HumanMessage query)"
    and "st1 = entered ''Processing legal query stream with session'' e st query sessionId"
proof -
  show i: "fst (ensureInitialized e st) = None"
  proof (cases "fst (ensureInitialized e st)")
    case None
    then show ?thesis .
  next
    case (Some err)
    then show ?thesis
      using assms getStream_uninitialised [OF Some, of query sessionId] by simp
  qed
  show "\<exists>stream. request e st query sessionId = Inr stream \<and>
           g = monitorStream stream (effectiveSessionId e sessionId) (HumanMessage query)"
    using assms by (auto simp: getStream_unfold [OF i] split: sum.splits)
  show "st1 = entered ''Processing legal query stream with session'' e st query sessionId"
    using assms by (auto simp: getStream_unfold [OF i] split: sum.splits)
qed

section \<open>What \<open>processQuery\<close> does when the model or its stream fails\<close>

lemma scripted_ready: "fst (ensureInitialized (scripted answer) ready_state) = None"
  by (simp add: ensureInitialized_def ready_state_def)

lemma scripted_ready_state: "snd (ensureInitialized (scripted answer) ready_state) = ready_state"
  by (simp add: ensureInitialized_def ready_state_def)

lemma scripted_request: "request (scripted answer) st query sessionId = answer"
  by (simp add: request_def scripted_def)

lemma scripted_fails_thrown: "fails_with (scripted (Inl err)) st query sessionId err"
  by (simp add: fails_with_def scripted_request)

lemma scripted_fails_stream:
  "fails_with (scripted (Inr (Stream cs (Some err)))) st query sessionId err"
  by (simp add: fails_with_def scripted_request)

lemma ready_stored: "stored (sessionMemory ready_state) s = []"
  by (simp add: ready_state_def stored_def)

lemma ready_logged: "logged ready_state = []"
  by (simp add: ready_state_def)

text \<open>
  C8, as amended. Once initialisation has been seen to, a call of \<open>processQuery\<close> whose
  model invocation or streaming fails logs two entries: at its start an \<open>Info\<close> entry with
  the first 100 code units of the query followed by \<open>...\<close>, and in its \<^verbatim>\<open>catch\<close> block
  an \<open>Err\<close> entry with the message of the error and the whole query, not truncated.
\<close>

theorem failure_log_entries:
  assumes "fst (ensureInitialized e st) = None" and "fails_with e st query sessionId err"
  shows "logged (snd (processQuery e st query sessionId)) =
           logged (snd (ensureInitialized e st)) @
             [LogEntry Info (js ''Processing legal query with session'')
                [(''query'', LStr (substring0 100 query @ js ''...'')),
                 (''sessionId'', LStr (effectiveSessionId e sessionId))],
              LogEntry Err query_error_text
                [(''error'', LStr (message err)), (''query'', LStr query)]]"
  by (simp add: processQuery_failure [OF assms] processQuery_catch_def Logger_error_def
      entered_logged)

theorem failure_log_entries_witness:
  "logged (snd (processQuery (scripted (Inl (Error (js ''timeout'')))) ready_state
                  (replicate 150 0x61) (Some (js ''s1'')))) =
     [LogEntry Info (js ''Processing legal query with session'')
        [(''query'', LStr (replicate 100 0x61 @ js ''...'')), (''sessionId'', LStr (js ''s1''))],
      LogEntry Err query_error_text
        [(''error'', LStr (js ''timeout'')), (''query'', LStr (replicate 150 0x61))]]"
  using failure_log_entries [OF scripted_ready scripted_fails_thrown,
      of "Error (js ''timeout'')" "replicate 150 0x61" "Some (js ''s1'')"]
  by (simp add: scripted_ready_state ready_logged substring0_def effectiveSessionId_def
      js_def)

text \<open>The claim as it was stated has the error entry carry the query cut to its first 100
  characters; for a query of 150 code units the entry carries all 150.\<close>

theorem error_log_counterexample:
  "entry_level (last (logged (snd (processQuery (scripted (Inl (Error (js ''timeout'')))) ready_state
                              (replicate 150 0x61) (Some (js ''s1'')))))) = Err \<and>
   map_of (entry_fields (last (logged (snd (processQuery (scripted (Inl (Error (js ''timeout''))))
                                        ready_state (replicate 150 0x61) (Some (js ''s1'')))))))
     ''query'' = Some (LStr (replicate 150 0x61)) \<and>
   replicate 150 (0x61 :: code_unit) \<noteq> substring0 100 (replicate 150 0x61) \<and>
   replicate 150 (0x61 :: code_unit) \<noteq> substring0 100 (replicate 150 0x61) @ js ''...''"
proof -
  have "length (replicate 150 (0x61 :: code_unit))
          \<noteq> length (substring0 100 (replicate 150 (0x61 :: code_unit)) @ js ''...'')"
    by (simp add: substring0_def js_def)
  then have "replicate 150 (0x61 :: code_unit)
               \<noteq> substring0 100 (replicate 150 0x61) @ js ''...''"
    by metis
  then show ?thesis
    by (simp add: processQuery_failure [OF scripted_ready scripted_fails_thrown]
        processQuery_catch_def Logger_error_def substring0_def)
qed

text \<open>
  C9. Once initialisation has been seen to, if the model's stream ends without an error and
  none of its chunks passes the string test, \<open>processQuery\<close> returns the empty string and
  the session's history grows by the user turn alone; the other sessions keep theirs.
\<close>

theorem no_string_chunk_commits_user_only:
  assumes "fst (ensureInitialized e st) = None"
    and "request e st query sessionId = Inr (Stream cs None)"
    and "\<forall>c \<in> set cs. string_part c = None"
  shows "fst (processQuery e st query sessionId) = Inr [] \<and>
         stored (sessionMemory (snd (processQuery e st query sessionId)))
             (effectiveSessionId e sessionId)
           = stored (sessionMemory st) (effectiveSessionId e sessionId) @ [HumanMessage query] \<and>
         (\<forall>s. s \<noteq> effectiveSessionId e sessionId \<longrightarrow>
            stored (sessionMemory (snd (processQuery e st query sessionId))) s
              = stored (sessionMemory st) s)"
  by (simp add: processQuery_success [OF assms(1,2)] collect_no_string [OF assms(3)])

theorem no_string_chunk_commits_user_only_witness:
  "fst (processQuery
          (scripted (Inr (Stream [NonArray, Array [], Array [Falsy], Array [Other],
                                  Array [Object (Message AI ComplexContent), Other]] None)))
          ready_state (js ''hello'') (Some (js ''s1''))) = Inr [] \<and>
   stored (sessionMemory (snd (processQuery
          (scripted (Inr (Stream [NonArray, Array [], Array [Falsy], Array [Other],
                                  Array [Object (Message AI ComplexContent), Other]] None)))
          ready_state (js ''hello'') (Some (js ''s1''))))) (js ''s1'')
     = [HumanMessage (js ''hello'')]"
  using no_string_chunk_commits_user_only [OF scripted_ready scripted_request,
      of "[NonArray, Array [], Array [Falsy], Array [Other],
           Array [Object (Message AI ComplexContent), Other]]" "js ''hello''" "Some (js ''s1'')"]
  by (simp add: ready_stored effectiveSessionId_def js_def)

section \<open>The monitored stream under a consumer\<close>

lemma next_yield_more:
  assumes "phase g = SuspendedYield c" and "chunks (m_stream g) = c' # cs"
  shows "monitor_next g st =
     (Yield c',
      g\<lparr>m_fullResponse := fst (accumulate c (m_fullResponse g, m_aiMessage g)),
        m_aiMessage := snd (accumulate c (m_fullResponse g, m_aiMessage g)),
        phase := SuspendedYield c', m_stream := Stream cs (failure (m_stream g))\<rparr>, st)"
  using assms by (simp add: monitor_next_def advance_def case_prod_beta)

lemma next_start_more:
  assumes "phase g = SuspendedStart" and "chunks (m_stream g) = c' # cs"
  shows "monitor_next g st =
     (Yield c',
      g\<lparr>phase := SuspendedYield c', m_stream := Stream cs (failure (m_stream g))\<rparr>,
      st\<lparr>sessionMemory := addMessage (sessionMemory st) (m_sessionId g) (m_userMessage g)\<rparr>)"
  using assms by (simp add: monitor_next_def advance_def)

lemma next_yield_last:
  assumes "phase g = SuspendedYield c" and "chunks (m_stream g) = []"
  shows "fst (monitor_next g st)
           = (case failure (m_stream g) of None \<Rightarrow> Return | Some err \<Rightarrow> Throw err)"
    and "sessionMemory (snd (snd (monitor_next g st))) =
          (case failure (m_stream g) of
             Some err \<Rightarrow> sessionMemory st
           | None \<Rightarrow>
               (case snd (accumulate c (m_fullResponse g, m_aiMessage g)) of
                  None \<Rightarrow> sessionMemory st
                | Some m \<Rightarrow> addMessage (sessionMemory st) (m_sessionId g) m))"
  using assms
  by (simp_all add: monitor_next_def advance_def case_prod_beta Logger_info_def
      Logger_error_def split: option.splits)

lemma next_start_last:
  assumes "phase g = SuspendedStart" and "chunks (m_stream g) = []"
  shows "fst (monitor_next g st)
           = (case failure (m_stream g) of None \<Rightarrow> Return | Some err \<Rightarrow> Throw err)"
    and "sessionMemory (snd (snd (monitor_next g st))) =
          (case failure (m_stream g) of
             Some err \<Rightarrow> addMessage (sessionMemory st) (m_sessionId g) (m_userMessage g)
           | None \<Rightarrow>
               (case m_aiMessage g of
                  None \<Rightarrow> addMessage (sessionMemory st) (m_sessionId g) (m_userMessage g)
                | Some m \<Rightarrow>
                    addMessage
                      (addMessage (sessionMemory st) (m_sessionId g) (m_userMessage g))
                      (m_sessionId g) m))"
  using assms
  by (simp_all add: monitor_next_def advance_def case_prod_beta Logger_info_def
      Logger_error_def split: option.splits)

lemma consume_step_end:
  "fst (monitor_next g st) = (case f of None \<Rightarrow> Return | Some err \<Rightarrow> Throw err) \<Longrightarrow>
     fst (consume (Suc j) g st) = ([], ending f) \<and>
     snd (snd (consume (Suc j) g st)) = snd (snd (monitor_next g st))"
  by (cases "monitor_next g st") (auto simp: ending_def split: option.splits)

lemma consume_abandoned_yield:
  "phase g = SuspendedYield c \<Longrightarrow> k \<le> length (chunks (m_stream g)) \<Longrightarrow>
     fst (consume k g st) = (take k (chunks (m_stream g)), Abandoned) \<and>
     snd (snd (consume k g st)) = st"
proof (induction k arbitrary: g c)
  case 0
  then show ?case by (simp add: monitor_return_def)
next
  case (Suc k)
  then obtain c' cs where cs: "chunks (m_stream g) = c' # cs"
    by (cases "chunks (m_stream g)") auto
  let ?g = "g\<lparr>m_fullResponse := fst (accumulate c (m_fullResponse g, m_aiMessage g)),
        m_aiMessage := snd (accumulate c (m_fullResponse g, m_aiMessage g)),
        phase := SuspendedYield c', m_stream := Stream cs (failure (m_stream g))\<rparr>"
  have n: "monitor_next g st = (Yield c', ?g, st)"
    using next_yield_more [OF Suc.prems(1) cs] .
  have "fst (consume k ?g st) = (take k (chunks (m_stream ?g)), Abandoned) \<and>
        snd (snd (consume k ?g st)) = st"
    using Suc.prems(2) cs by (intro Suc.IH [of ?g c']) auto
  then show ?case
    by (simp add: n cs case_prod_beta)
qed

lemma consume_abandoned_start:
  assumes "phase g = SuspendedStart" and "k \<le> length (chunks (m_stream g))"
  shows "fst (consume k g st) = (take k (chunks (m_stream g)), Abandoned) \<and>
         snd (snd (consume k g st)) =
           (if k = 0 then st
            else st\<lparr>sessionMemory :=
                      addMessage (sessionMemory st) (m_sessionId g) (m_userMessage g)\<rparr>)"
proof (cases k)
  case 0
  then show ?thesis by (simp add: monitor_return_def)
next
  case (Suc j)
  then obtain c' cs where cs: "chunks (m_stream g) = c' # cs"
    using assms(2) by (cases "chunks (m_stream g)") auto
  let ?g = "g\<lparr>phase := SuspendedYield c', m_stream := Stream cs (failure (m_stream g))\<rparr>"
  let ?st = "st\<lparr>sessionMemory :=
                  addMessage (sessionMemory st) (m_sessionId g) (m_userMessage g)\<rparr>"
  have n: "monitor_next g st = (Yield c', ?g, ?st)"
    using next_start_more [OF assms(1) cs] .
  have "fst (consume j ?g ?st) = (take j (chunks (m_stream ?g)), Abandoned) \<and>
        snd (snd (consume j ?g ?st)) = ?st"
    using assms(2) cs Suc by (intro consume_abandoned_yield [of ?g c']) auto
  then show ?thesis
    by (simp add: n cs Suc case_prod_beta)
qed

lemma consume_drained_yield:
  "phase g = SuspendedYield c \<Longrightarrow> length (chunks (m_stream g)) < k \<Longrightarrow>
     fst (consume k g st) = (chunks (m_stream g), ending (failure (m_stream g))) \<and>
     sessionMemory (snd (snd (consume k g st))) =
       (case failure (m_stream g) of
          Some err \<Rightarrow> sessionMemory st
        | None \<Rightarrow>
            (case snd (foldl (\<lambda>acc c. accumulate c acc) (m_fullResponse g, m_aiMessage g)
                         (c # chunks (m_stream g))) of
               None \<Rightarrow> sessionMemory st
             | Some m \<Rightarrow> addMessage (sessionMemory st) (m_sessionId g) m))"
proof (induction k arbitrary: g c)
  case 0
  then show ?case by simp
next
  case (Suc j)
  show ?case
  proof (cases "chunks (m_stream g)")
    case Nil
    show ?thesis
      using consume_step_end [OF next_yield_last(1) [OF Suc.prems(1) Nil], of j st]
        next_yield_last(2) [OF Suc.prems(1) Nil, of st]
      by (simp add: Nil split: option.splits)
  next
    case (Cons c' cs)
    let ?g = "g\<lparr>m_fullResponse := fst (accumulate c (m_fullResponse g, m_aiMessage g)),
        m_aiMessage := snd (accumulate c (m_fullResponse g, m_aiMessage g)),
        phase := SuspendedYield c', m_stream := Stream cs (failure (m_stream g))\<rparr>"
    have n: "monitor_next g st = (Yield c', ?g, st)"
      using next_yield_more [OF Suc.prems(1) Cons] .
    have p: "phase ?g = SuspendedYield c'" and l: "length (chunks (m_stream ?g)) < j"
      using Suc.prems(2) Cons by auto
    show ?thesis
      using Suc.IH [OF p l]
      by (simp add: n Cons case_prod_beta split: option.splits)
  qed
qed

lemma consume_drained_start:
  assumes "phase g = SuspendedStart" and "length (chunks (m_stream g)) < k"
  shows "fst (consume k g st) = (chunks (m_stream g), ending (failure (m_stream g))) \<and>
     sessionMemory (snd (snd (consume k g st))) =
       (case failure (m_stream g) of
          Some err \<Rightarrow> addMessage (sessionMemory st) (m_sessionId g) (m_userMessage g)
        | None \<Rightarrow>
            (case snd (foldl (\<lambda>acc c. accumulate c acc) (m_fullResponse g, m_aiMessage g)
                         (chunks (m_stream g))) of
               None \<Rightarrow> addMessage (sessionMemory st) (m_sessionId g) (m_userMessage g)
             | Some m \<Rightarrow>
                 addMessage (addMessage (sessionMemory st) (m_sessionId g) (m_userMessage g))
                   (m_sessionId g) m))"
proof -
  obtain j where k: "k = Suc j"
    using assms(2) by (cases k) auto
  show ?thesis
  proof (cases "chunks (m_stream g)")
    case Nil
    show ?thesis
      using consume_step_end [OF next_start_last(1) [OF assms(1) Nil], of j st]
        next_start_last(2) [OF assms(1) Nil, of st]
      by (simp add: Nil k split: option.splits)
  next
    case (Cons c' cs)
    let ?g = "g\<lparr>phase := SuspendedYield c', m_stream := Stream cs (failure (m_stream g))\<rparr>"
    let ?st = "st\<lparr>sessionMemory :=
                    addMessage (sessionMemory st) (m_sessionId g) (m_userMessage g)\<rparr>"
    have n: "monitor_next g st = (Yield c', ?g, ?st)"
      using next_start_more [OF assms(1) Cons] .
    have p: "phase ?g = SuspendedYield c'" and l: "length (chunks (m_stream ?g)) < j"
      using assms(2) Cons k by auto
    show ?thesis
      using consume_drained_yield [OF p l, of ?st]
      by (simp add: n Cons k case_prod_beta split: option.splits)
  qed
qed

text \<open>The generator \<open>monitorStream\<close> returns, under a consumer that stops after \<open>k\<close>
  chunks and under one that iterates to the end.\<close>

lemma monitor_abandoned:
  assumes "k \<le> length (chunks stream)"
  shows "fst (consume k (monitorStream stream sid user) st) = (take k (chunks stream), Abandoned)"
    and "stored (sessionMemory (snd (snd (consume k (monitorStream stream sid user) st)))) s =
           (if s = sid \<and> 0 < k then stored (sessionMemory st) s @ [user]
            else stored (sessionMemory st) s)"
  using consume_abandoned_start [of "monitorStream stream sid user" k st] assms
  by (simp_all add: monitorStream_def addMessage_stored)

lemma monitor_drained:
  assumes "length (chunks stream) < k"
  shows "fst (consume k (monitorStream stream sid user) st)
           = (chunks stream, ending (failure stream))"
    and "stored (sessionMemory (snd (snd (consume k (monitorStream stream sid user) st)))) s =
           (if s = sid
            then stored (sessionMemory st) s @ user #
                   (case failure stream of
                      Some err \<Rightarrow> []
                    | None \<Rightarrow> (case snd (collect (chunks stream)) of
                                 None \<Rightarrow> []
                               | Some m \<Rightarrow> [m]))
            else stored (sessionMemory st) s)"
  using consume_drained_start [of "monitorStream stream sid user" k st] assms
  by (simp_all add: monitorStream_def addMessage_stored collect_def split: option.splits)

section \<open>What is committed to the session memory\<close>

lemma scripted_effective: "effectiveSessionId e (Some (js (c # cs))) = js (c # cs)"
  by (simp add: effectiveSessionId_def js_def)

lemma scripted_getStream:
  "getStream (scripted (Inr stream)) ready_state query (Some (js (c # cs))) =
     (Inr (monitorStream stream (js (c # cs)) (HumanMessage query)),
      entered ''Processing legal query stream with session'' (scripted (Inr stream))
        ready_state query (Some (js (c # cs))))"
  by (simp add: getStream_unfold [OF scripted_ready] scripted_request scripted_effective)

text \<open>
  Once initialisation has been seen to, when the model's stream ends without an error,
  \<open>processQuery\<close> returns the concatenated text and leaves the session's history extended
  by the user turn and then, if the loop has set \<^verbatim>\<open>aiMessage\<close>, by that message;
  a consumer that iterates the stream of \<open>getStream\<close> to its end receives every chunk and
  leaves the history extended in the same way. In both the user turn comes first, and no
  other session changes.
\<close>

lemma completed_exchange_commits:
  assumes "fst (ensureInitialized e st) = None"
    and "request e st query sessionId = Inr (Stream cs None)"
  shows "fst (processQuery e st query sessionId) = Inr (fst (collect cs)) \<and>
    (\<forall>s. stored (sessionMemory (snd (processQuery e st query sessionId))) s =
       (if s = effectiveSessionId e sessionId
        then stored (sessionMemory st) s @ HumanMessage query #
               (case snd (collect cs) of None \<Rightarrow> [] | Some m \<Rightarrow> [m])
        else stored (sessionMemory st) s)) \<and>
    fst (getStream e st query sessionId)
      = Inr (monitorStream (Stream cs None) (effectiveSessionId e sessionId)
               (HumanMessage query)) \<and>
    (\<forall>k s. length cs < k \<longrightarrow>
       fst (consume k
              (monitorStream (Stream cs None) (effectiveSessionId e sessionId)
                 (HumanMessage query))
              (snd (getStream e st query sessionId))) = (cs, Exhausted) \<and>
       stored (sessionMemory (snd (snd (consume k
              (monitorStream (Stream cs None) (effectiveSessionId e sessionId)
                 (HumanMessage query))
              (snd (getStream e st query sessionId)))))) s =
         (if s = effectiveSessionId e sessionId
          then stored (sessionMemory st) s @ HumanMessage query #
                 (case snd (collect cs) of None \<Rightarrow> [] | Some m \<Rightarrow> [m])
          else stored (sessionMemory st) s))"
proof -
  have buffered: "fst (processQuery e st query sessionId) = Inr (fst (collect cs))"
    by (rule processQuery_success(1) [OF assms])
  have buffered_memory:
    "\<forall>s. stored (sessionMemory (snd (processQuery e st query sessionId))) s =
       (if s = effectiveSessionId e sessionId
        then stored (sessionMemory st) s @ HumanMessage query #
               (case snd (collect cs) of None \<Rightarrow> [] | Some m \<Rightarrow> [m])
        else stored (sessionMemory st) s)"
    by (simp add: processQuery_success(2) [OF assms])
  have streaming: "getStream e st query sessionId =
      (Inr (monitorStream (Stream cs None) (effectiveSessionId e sessionId)
              (HumanMessage query)),
       entered ''Processing legal query stream with session'' e st query sessionId)"
    by (simp add: getStream_unfold [OF assms(1)] assms(2))
  have drained: "\<forall>k s. length cs < k \<longrightarrow>
       fst (consume k
              (monitorStream (Stream cs None) (effectiveSessionId e sessionId)
                 (HumanMessage query))
              (entered ''Processing legal query stream with session'' e st query sessionId))
         = (cs, Exhausted) \<and>
       stored (sessionMemory (snd (snd (consume k
              (monitorStream (Stream cs None) (effectiveSessionId e sessionId)
                 (HumanMessage query))
              (entered ''Processing legal query stream with session'' e st query
                 sessionId))))) s =
         (if s = effectiveSessionId e sessionId
          then stored (sessionMemory st) s @ HumanMessage query #
                 (case snd (collect cs) of None \<Rightarrow> [] | Some m \<Rightarrow> [m])
          else stored (sessionMemory st) s)"
    by (simp add: monitor_drained ending_def entered_stored)
  show ?thesis
    using buffered buffered_memory drained by (simp add: streaming)
qed

text \<open>
  C4. For a stream of the two chunks \<open>Hel\<close> and \<open>lo\<close> that ends without an error, both
  paths commit the user turn first and an assistant turn second, but the assistant turn
  committed is the message of the last chunk, \<open>lo\<close>, while the text accumulated from the
  chunks, which \<open>processQuery\<close> returns, is \<open>Hello\<close>: no turn with the accumulated text
  reaches the session's history.
\<close>

theorem committed_assistant_turn_is_last_chunk:
  "fst (processQuery
          (scripted (Inr (Stream [Array [Object (turn AI ''Hel''), Other],
                                  Array [Object (turn AI ''lo''), Other]] None)))
          ready_state (js ''hello'') (Some (js ''s1''))) = Inr (js ''Hello'') \<and>
   stored (sessionMemory (snd (processQuery
          (scripted (Inr (Stream [Array [Object (turn AI ''Hel''), Other],
                                  Array [Object (turn AI ''lo''), Other]] None)))
          ready_state (js ''hello'') (Some (js ''s1''))))) (js ''s1'')
     = [HumanMessage (js ''hello''), turn AI ''lo''] \<and>
   fst (getStream
          (scripted (Inr (Stream [Array [Object (turn AI ''Hel''), Other],
                                  Array [Object (turn AI ''lo''), Other]] None)))
          ready_state (js ''hello'') (Some (js ''s1'')))
     = Inr (monitorStream (Stream [Array [Object (turn AI ''Hel''), Other],
                                   Array [Object (turn AI ''lo''), Other]] None)
              (js ''s1'') (HumanMessage (js ''hello''))) \<and>
   fst (consume 3
          (monitorStream (Stream [Array [Object (turn AI ''Hel''), Other],
                                  Array [Object (turn AI ''lo''), Other]] None)
             (js ''s1'') (HumanMessage (js ''hello'')))
          (snd (getStream
             (scripted (Inr (Stream [Array [Object (turn AI ''Hel''), Other],
                                     Array [Object (turn AI ''lo''), Other]] None)))
             ready_state (js ''hello'') (Some (js ''s1'')))))
     = ([Array [Object (turn AI ''Hel''), Other], Array [Object (turn AI ''lo''), Other]],
        Exhausted) \<and>
   stored (sessionMemory (snd (snd (consume 3
          (monitorStream (Stream [Array [Object (turn AI ''Hel''), Other],
                                  Array [Object (turn AI ''lo''), Other]] None)
             (js ''s1'') (HumanMessage (js ''hello'')))
          (snd (getStream
             (scripted (Inr (Stream [Array [Object (turn AI ''Hel''), Other],
                                     Array [Object (turn AI ''lo''), Other]] None)))
             ready_state (js ''hello'') (Some (js ''s1'')))))))) (js ''s1'')
     = [HumanMessage (js ''hello''), turn AI ''lo''] \<and>
   turn AI ''lo'' \<noteq> turn AI ''Hello'' \<and>
   HumanMessage (js ''hello'') \<noteq> turn AI ''Hello''"
  using completed_exchange_commits [OF scripted_ready scripted_request,
      of "[Array [Object (turn AI ''Hel''), Other], Array [Object (turn AI ''lo''), Other]]"
         "js ''hello''" "Some (js ''s1'')"]
  by (simp add: scripted_effective ready_stored collect_def turn_def HumanMessage_def)
    (simp add: js_def)

text \<open>
  C2. Once initialisation has been seen to: if the model invocation or the streaming fails,
  \<open>processQuery\<close> leaves every session's history as it was, so neither the user turn nor
  an assistant turn is committed; if the model invocation fails, so does \<open>getStream\<close>;
  if the stream that \<open>getStream\<close> hands out ends with an error, the first \<^verbatim>\<open>next()\<close>
  commits the user turn, and whether the consumer then stops or iterates until the error is
  thrown at it, the session's history is the old one followed by the user turn alone.
\<close>

theorem failed_exchange_commits:
  assumes "fst (ensureInitialized e st) = None"
  shows "(fails_with e st query sessionId err \<longrightarrow>
            (\<forall>s. stored (sessionMemory (snd (processQuery e st query sessionId))) s
                   = stored (sessionMemory st) s)) \<and>
         (request e st query sessionId = Inl err \<longrightarrow>
            (\<forall>s. stored (sessionMemory (snd (getStream e st query sessionId))) s
                   = stored (sessionMemory st) s)) \<and>
         (request e st query sessionId = Inr (Stream cs (Some err)) \<longrightarrow>
            fst (getStream e st query sessionId)
              = Inr (monitorStream (Stream cs (Some err)) (effectiveSessionId e sessionId)
                       (HumanMessage query)) \<and>
            (\<forall>k s.
               snd (fst (consume k
                      (monitorStream (Stream cs (Some err)) (effectiveSessionId e sessionId)
                         (HumanMessage query))
                      (snd (getStream e st query sessionId))))
                 = (if k \<le> length cs then Abandoned else Failed err) \<and>
               stored (sessionMemory (snd (snd (consume k
                      (monitorStream (Stream cs (Some err)) (effectiveSessionId e sessionId)
                         (HumanMessage query))
                      (snd (getStream e st query sessionId)))))) s
                 = (if s = effectiveSessionId e sessionId \<and> 0 < k
                    then stored (sessionMemory st) s @ [HumanMessage query]
                    else stored (sessionMemory st) s)))"
proof -
  have buffered: "fails_with e st query sessionId err \<longrightarrow>
      (\<forall>s. stored (sessionMemory (snd (processQuery e st query sessionId))) s
             = stored (sessionMemory st) s)"
    by (simp add: processQuery_failure [OF assms] processQuery_catch_def Logger_error_def
        entered_stored)
  have invoked: "request e st query sessionId = Inl err \<longrightarrow>
      (\<forall>s. stored (sessionMemory (snd (getStream e st query sessionId))) s
             = stored (sessionMemory st) s)"
    by (simp add: getStream_unfold [OF assms] Logger_error_def entered_stored)
  have streamed: "request e st query sessionId = Inr (Stream cs (Some err)) \<longrightarrow>
            fst (getStream e st query sessionId)
              = Inr (monitorStream (Stream cs (Some err)) (effectiveSessionId e sessionId)
                       (HumanMessage query)) \<and>
            (\<forall>k s.
               snd (fst (consume k
                      (monitorStream (Stream cs (Some err)) (effectiveSessionId e sessionId)
                         (HumanMessage query))
                      (snd (getStream e st query sessionId))))
                 = (if k \<le> length cs then Abandoned else Failed err) \<and>
               stored (sessionMemory (snd (snd (consume k
                      (monitorStream (Stream cs (Some err)) (effectiveSessionId e sessionId)
                         (HumanMessage query))
                      (snd (getStream e st query sessionId)))))) s
                 = (if s = effectiveSessionId e sessionId \<and> 0 < k
                    then stored (sessionMemory st) s @ [HumanMessage query]
                    else stored (sessionMemory st) s))"
  proof (intro impI conjI allI)
    assume r: "request e st query sessionId = Inr (Stream cs (Some err))"
    have g: "getStream e st query sessionId =
      (Inr (monitorStream (Stream cs (Some err)) (effectiveSessionId e sessionId)
              (HumanMessage query)),
       entered ''Processing legal query stream with session'' e st query sessionId)"
      by (simp add: getStream_unfold [OF assms] r)
    show "fst (getStream e st query sessionId)
              = Inr (monitorStream (Stream cs (Some err)) (effectiveSessionId e sessionId)
                       (HumanMessage query))"
      by (simp add: g)
    fix k s
    show "snd (fst (consume k
                      (monitorStream (Stream cs (Some err)) (effectiveSessionId e sessionId)
                         (HumanMessage query))
                      (snd (getStream e st query sessionId))))
                 = (if k \<le> length cs then Abandoned else Failed err)"
      by (cases "k \<le> length cs") (simp_all add: g monitor_abandoned monitor_drained ending_def)
    show "stored (sessionMemory (snd (snd (consume k
                      (monitorStream (Stream cs (Some err)) (effectiveSessionId e sessionId)
                         (HumanMessage query))
                      (snd (getStream e st query sessionId)))))) s
                 = (if s = effectiveSessionId e sessionId \<and> 0 < k
                    then stored (sessionMemory st) s @ [HumanMessage query]
                    else stored (sessionMemory st) s)"
      by (cases "k \<le> length cs")
        (auto simp: g monitor_abandoned monitor_drained entered_stored)
  qed
  show ?thesis
    using buffered invoked streamed by blast
qed

theorem failed_exchange_commits_witness:
  "stored (sessionMemory (snd (processQuery
          (scripted (Inr (Stream [Array [Object (turn AI ''Hel''), Other]]
                           (Some (Error (js ''socket hang up''))))))
          ready_state (js ''hello'') (Some (js ''s1''))))) (js ''s1'') = [] \<and>
   stored (sessionMemory (snd (getStream (scripted (Inl (Error (js ''socket hang up''))))
          ready_state (js ''hello'') (Some (js ''s1''))))) (js ''s1'') = [] \<and>
   snd (fst (consume 5
          (monitorStream (Stream [Array [Object (turn AI ''Hel''), Other]]
                            (Some (Error (js ''socket hang up''))))
             (js ''s1'') (HumanMessage (js ''hello'')))
          (snd (getStream
             (scripted (Inr (Stream [Array [Object (turn AI ''Hel''), Other]]
                              (Some (Error (js ''socket hang up''))))))
             ready_state (js ''hello'') (Some (js ''s1''))))))
     = Failed (Error (js ''socket hang up'')) \<and>
   stored (sessionMemory (snd (snd (consume 5
          (monitorStream (Stream [Array [Object (turn AI ''Hel''), Other]]
                            (Some (Error (js ''socket hang up''))))
             (js ''s1'') (HumanMessage (js ''hello'')))
          (snd (getStream
             (scripted (Inr (Stream [Array [Object (turn AI ''Hel''), Other]]
                              (Some (Error (js ''socket hang up''))))))
             ready_state (js ''hello'') (Some (js ''s1'')))))))) (js ''s1'')
     = [HumanMessage (js ''hello'')]"
  using
    failed_exchange_commits [OF scripted_ready,
      of "Inr (Stream [Array [Object (turn AI ''Hel''), Other]]
                 (Some (Error (js ''socket hang up''))))"
         "js ''hello''" "Some (js ''s1'')" "Error (js ''socket hang up'')"
         "[Array [Object (turn AI ''Hel''), Other]]"]
    failed_exchange_commits [OF scripted_ready,
      of "Inl (Error (js ''socket hang up''))"
         "js ''hello''" "Some (js ''s1'')" "Error (js ''socket hang up'')" "[]"]
  by (simp add: scripted_fails_stream scripted_request scripted_effective ready_stored)

text \<open>
  C7. A consumer of the stream that \<open>getStream\<close> returns which takes \<open>k\<close> chunks, no
  more than the model's stream holds, and then stops iterating receives those chunks and
  abandons the generator: the session's history is the old one, followed by the user turn if
  the consumer has called \<^verbatim>\<open>next()\<close> at all. No assistant turn is appended, and no
  other session changes.
\<close>

theorem abandoned_stream_commits_no_assistant:
  assumes "getStream e st query sessionId = (Inr g, st1)"
    and "k \<le> length (chunks (m_stream g))"
  shows "fst (consume k g st1) = (take k (chunks (m_stream g)), Abandoned) \<and>
         (\<forall>s. stored (sessionMemory (snd (snd (consume k g st1)))) s =
                (if s = effectiveSessionId e sessionId \<and> 0 < k
                 then stored (sessionMemory st) s @ [HumanMessage query]
                 else stored (sessionMemory st) s))"
proof -
  obtain stream where
    g: "g = monitorStream stream (effectiveSessionId e sessionId) (HumanMessage query)"
    using getStream_returns(2) [OF assms(1)] by blast
  have st1: "st1 = entered ''Processing legal query stream with session'' e st query sessionId"
    by (rule getStream_returns(3) [OF assms(1)])
  have c: "chunks (m_stream g) = chunks stream"
    by (simp add: g monitorStream_def)
  have k: "k \<le> length (chunks stream)"
    using assms(2) c by simp
  show ?thesis
    unfolding c unfolding g
    by (simp add: monitor_abandoned [OF k] st1 entered_stored)
qed

theorem abandoned_stream_commits_no_assistant_witness:
  "fst (consume 2
          (monitorStream (Stream [Array [Object (turn AI ''Hel''), Other], NonArray,
                                  Array [Object (turn AI ''lo''), Other]] None)
             (js ''s1'') (HumanMessage (js ''hello'')))
          (entered ''Processing legal query stream with session''
             (scripted (Inr (Stream [Array [Object (turn AI ''Hel''), Other], NonArray,
                                     Array [Object (turn AI ''lo''), Other]] None)))
             ready_state (js ''hello'') (Some (js ''s1''))))
     = ([Array [Object (turn AI ''Hel''), Other], NonArray], Abandoned) \<and>
   stored (sessionMemory (snd (snd (consume 2
          (monitorStream (Stream [Array [Object (turn AI ''Hel''), Other], NonArray,
                                  Array [Object (turn AI ''lo''), Other]] None)
             (js ''s1'') (HumanMessage (js ''hello'')))
          (entered ''Processing legal query stream with session''
             (scripted (Inr (Stream [Array [Object (turn AI ''Hel''), Other], NonArray,
                                     Array [Object (turn AI ''lo''), Other]] None)))
             ready_state (js ''hello'') (Some (js ''s1''))))))) (js ''s1'')
     = [HumanMessage (js ''hello'')]"
  using abandoned_stream_commits_no_assistant
    [OF scripted_getStream [of "Stream [Array [Object (turn AI ''Hel''), Other], NonArray,
                                        Array [Object (turn AI ''lo''), Other]] None"
          "js ''hello''" "CHR ''s''" "''1''"], of 2]
  by (simp add: monitorStream_def scripted_effective ready_stored)

section \<open>How failures reach the caller\<close>

lemma ensureInitialized_succeeds:
  "fst (ensureInitialized e st) = None
     \<longleftrightarrow> isInitialized st \<or> (initChatModel e = None \<and> createAgent e = None)"
  by (simp add: ensureInitialized_def initializeAgent_def Let_def split: option.splits)

lemma ensureInitialized_fails:
  "\<not> isInitialized st \<Longrightarrow> initChatModel e = Some err \<Longrightarrow>
     fst (ensureInitialized e st) = Some err"
  "\<not> isInitialized st \<Longrightarrow> initChatModel e = None \<Longrightarrow> createAgent e = Some err \<Longrightarrow>
     fst (ensureInitialized e st) = Some err"
  by (simp_all add: ensureInitialized_def initializeAgent_def Let_def)

lemma processQuery_returns:
  assumes "fst (processQuery e st query sessionId) = Inr response"
  shows "fst (ensureInitialized e st) = None \<and>
         (\<exists>cs. request e st query sessionId = Inr (Stream cs None))"
proof (cases "fst (ensureInitialized e st)")
  case (Some err)
  then show ?thesis
    using assms processQuery_uninitialised [OF Some, of query sessionId] by simp
next
  case None
  have "\<exists>cs. request e st query sessionId = Inr (Stream cs None)"
  proof (cases "request e st query sessionId")
    case (Inl err)
    then show ?thesis
      using assms by (simp add: processQuery_unfold [OF None] processQuery_catch_def)
  next
    case (Inr stream)
    then show ?thesis
      using assms
      by (cases stream)
        (auto simp: processQuery_unfold [OF None] processQuery_catch_def split: option.splits)
  qed
  then show ?thesis
    using None by simp
qed

text \<open>
  C6, as amended. No failure is swallowed: \<open>processQuery\<close> returns a response only when
  initialisation has been seen to and the model's stream has ended without an error, and
  every failure is thrown at the caller. A failure of the model invocation, and inside
  \<open>processQuery\<close> of the streaming, is thrown as a new \<^verbatim>\<open>Error\<close> whose message is
  the method's fixed prefix followed by the message of the error that caused it. An error
  that ends the stream handed out by \<open>getStream\<close> is thrown at the stream's consumer as it
  is, and so is a failure of the initialisation that either method starts on an agent not
  yet initialised: the original error, with no prefix.
\<close>

theorem query_failures_rethrown:
  "(fst (ensureInitialized e st) = None \<and> fails_with e st query sessionId err \<longrightarrow>
      fst (processQuery e st query sessionId)
        = Inl (Error (query_failed_prefix @ message err))) \<and>
   (fst (ensureInitialized e st) = None \<and> request e st query sessionId = Inl err \<longrightarrow>
      fst (getStream e st query sessionId)
        = Inl (Error (stream_failed_prefix @ message err))) \<and>
   (fst (ensureInitialized e st) = None \<and>
    request e st query sessionId = Inr (Stream cs (Some err)) \<longrightarrow>
      fst (getStream e st query sessionId)
        = Inr (monitorStream (Stream cs (Some err)) (effectiveSessionId e sessionId)
                 (HumanMessage query)) \<and>
      (\<forall>k. length cs < k \<longrightarrow>
         fst (consume k
                (monitorStream (Stream cs (Some err)) (effectiveSessionId e sessionId)
                   (HumanMessage query))
                (snd (getStream e st query sessionId))) = (cs, Failed err))) \<and>
   (\<not> isInitialized st \<and> initChatModel e = Some err \<longrightarrow>
      fst (processQuery e st query sessionId) = Inl err \<and>
      fst (getStream e st query sessionId) = Inl err) \<and>
   (\<not> isInitialized st \<and> initChatModel e = None \<and> createAgent e = Some err \<longrightarrow>
      fst (processQuery e st query sessionId) = Inl err \<and>
      fst (getStream e st query sessionId) = Inl err) \<and>
   (\<forall>response. fst (processQuery e st query sessionId) = Inr response \<longrightarrow>
      (isInitialized st \<or> (initChatModel e = None \<and> createAgent e = None)) \<and>
      (\<exists>cs0. request e st query sessionId = Inr (Stream cs0 None)))"
proof -
  have caught: "fst (ensureInitialized e st) = None \<and> fails_with e st query sessionId err \<longrightarrow>
      fst (processQuery e st query sessionId)
        = Inl (Error (query_failed_prefix @ message err))"
    by (simp add: processQuery_failure [of e st query sessionId err] processQuery_catch_def)
  have invoked: "fst (ensureInitialized e st) = None \<and> request e st query sessionId = Inl err
      \<longrightarrow> fst (getStream e st query sessionId)
            = Inl (Error (stream_failed_prefix @ message err))"
    by (simp add: getStream_unfold)
  have streamed: "fst (ensureInitialized e st) = None \<and>
    request e st query sessionId = Inr (Stream cs (Some err)) \<longrightarrow>
      fst (getStream e st query sessionId)
        = Inr (monitorStream (Stream cs (Some err)) (effectiveSessionId e sessionId)
                 (HumanMessage query)) \<and>
      (\<forall>k. length cs < k \<longrightarrow>
         fst (consume k
                (monitorStream (Stream cs (Some err)) (effectiveSessionId e sessionId)
                   (HumanMessage query))
                (snd (getStream e st query sessionId))) = (cs, Failed err))"
    by (simp add: getStream_unfold monitor_drained(1) ending_def)
  have model: "\<not> isInitialized st \<and> initChatModel e = Some err \<longrightarrow>
      fst (processQuery e st query sessionId) = Inl err \<and>
      fst (getStream e st query sessionId) = Inl err"
  proof (intro impI)
    assume "\<not> isInitialized st \<and> initChatModel e = Some err"
    then have f: "fst (ensureInitialized e st) = Some err"
      using ensureInitialized_fails(1) by blast
    show "fst (processQuery e st query sessionId) = Inl err \<and>
          fst (getStream e st query sessionId) = Inl err"
      by (simp add: processQuery_uninitialised [OF f] getStream_uninitialised [OF f])
  qed
  have agent: "\<not> isInitialized st \<and> initChatModel e = None \<and> createAgent e = Some err \<longrightarrow>
      fst (processQuery e st query sessionId) = Inl err \<and>
      fst (getStream e st query sessionId) = Inl err"
  proof (intro impI)
    assume "\<not> isInitialized st \<and> initChatModel e = None \<and> createAgent e = Some err"
    then have f: "fst (ensureInitialized e st) = Some err"
      using ensureInitialized_fails(2) by blast
    show "fst (processQuery e st query sessionId) = Inl err \<and>
          fst (getStream e st query sessionId) = Inl err"
      by (simp add: processQuery_uninitialised [OF f] getStream_uninitialised [OF f])
  qed
  have returned: "\<forall>response. fst (processQuery e st query sessionId) = Inr response \<longrightarrow>
      (isInitialized st \<or> (initChatModel e = None \<and> createAgent e = None)) \<and>
      (\<exists>cs0. request e st query sessionId = Inr (Stream cs0 None))"
    using processQuery_returns [of e st query sessionId]
    by (simp add: ensureInitialized_succeeds)
  show ?thesis
    using caught invoked streamed model agent returned by blast
qed

theorem query_failures_rethrown_witness:
  "fst (processQuery (scripted (Inl (Error (js ''connect ECONNREFUSED'')))) ready_state
          (js ''hello'') (Some (js ''s1'')))
     = Inl (Error (query_failed_prefix @ js ''connect ECONNREFUSED'')) \<and>
   fst (getStream (scripted (Inl (Error (js ''connect ECONNREFUSED'')))) ready_state
          (js ''hello'') (Some (js ''s1'')))
     = Inl (Error (stream_failed_prefix @ js ''connect ECONNREFUSED'')) \<and>
   fst (processQuery
          (scripted (Inr (Stream [Array [Object (turn AI ''Hel''), Other]]
                           (Some (Error (js ''socket hang up'')))))) ready_state
          (js ''hello'') (Some (js ''s1'')))
     = Inl (Error (query_failed_prefix @ js ''socket hang up'')) \<and>
   fst (consume 2
          (monitorStream (Stream [Array [Object (turn AI ''Hel''), Other]]
                            (Some (Error (js ''socket hang up''))))
             (js ''s1'') (HumanMessage (js ''hello'')))
          (snd (getStream
             (scripted (Inr (Stream [Array [Object (turn AI ''Hel''), Other]]
                              (Some (Error (js ''socket hang up''))))))
             ready_state (js ''hello'') (Some (js ''s1'')))))
     = ([Array [Object (turn AI ''Hel''), Other]], Failed (Error (js ''socket hang up''))) \<and>
   fst (processQuery
          ((scripted (Inl (Error [])))\<lparr>initChatModel := Some (Error (js ''model not found''))\<rparr>)
          (ready_state\<lparr>isInitialized := False\<rparr>) (js ''hello'') (Some (js ''s1'')))
     = Inl (Error (js ''model not found'')) \<and>
   fst (getStream
          ((scripted (Inl (Error [])))\<lparr>createAgent := Some (Error (js ''no agent''))\<rparr>)
          (ready_state\<lparr>isInitialized := False\<rparr>) (js ''hello'') (Some (js ''s1'')))
     = Inl (Error (js ''no agent''))"
  using
    query_failures_rethrown
      [of "scripted (Inl (Error (js ''connect ECONNREFUSED'')))" ready_state
          "js ''hello''" "Some (js ''s1'')" "Error (js ''connect ECONNREFUSED'')" "[]"]
    query_failures_rethrown
      [of "scripted (Inr (Stream [Array [Object (turn AI ''Hel''), Other]]
                            (Some (Error (js ''socket hang up'')))))" ready_state
          "js ''hello''" "Some (js ''s1'')" "Error (js ''socket hang up'')"
          "[Array [Object (turn AI ''Hel''), Other]]"]
    query_failures_rethrown
      [of "(scripted (Inl (Error [])))\<lparr>initChatModel := Some (Error (js ''model not found''))\<rparr>"
          "ready_state\<lparr>isInitialized := False\<rparr>"
          "js ''hello''" "Some (js ''s1'')" "Error (js ''model not found'')" "[]"]
    query_failures_rethrown
      [of "(scripted (Inl (Error [])))\<lparr>createAgent := Some (Error (js ''no agent''))\<rparr>"
          "ready_state\<lparr>isInitialized := False\<rparr>"
          "js ''hello''" "Some (js ''s1'')" "Error (js ''no agent'')" "[]"]
  by (simp add: scripted_ready scripted_fails_thrown scripted_fails_stream scripted_request
      scripted_effective)
    (simp add: scripted_def)

text \<open>The claim as it was stated has every failure thrown as a new error around the
  original message. The consumer of a stream that fails after its first chunk is thrown the
  stream's own error, and a call on an agent whose model cannot be created is thrown the
  initialisation's own error; neither carries the method's prefix.\<close>

theorem query_failures_counterexample:
  "fst (getStream
          (scripted (Inr (Stream [Array [Object (turn AI ''Hel''), Other]]
                           (Some (Error (js ''socket hang up''))))))
          ready_state (js ''hello'') (Some (js ''s1'')))
     = Inr (monitorStream (Stream [Array [Object (turn AI ''Hel''), Other]]
                             (Some (Error (js ''socket hang up''))))
              (js ''s1'') (HumanMessage (js ''hello''))) \<and>
   snd (fst (consume 2
          (monitorStream (Stream [Array [Object (turn AI ''Hel''), Other]]
                            (Some (Error (js ''socket hang up''))))
             (js ''s1'') (HumanMessage (js ''hello'')))
          (snd (getStream
             (scripted (Inr (Stream [Array [Object (turn AI ''Hel''), Other]]
                              (Some (Error (js ''socket hang up''))))))
             ready_state (js ''hello'') (Some (js ''s1''))))))
     = Failed (Error (js ''socket hang up'')) \<and>
   Error (js ''socket hang up'') \<noteq> Error (stream_failed_prefix @ js ''socket hang up'') \<and>
   fst (processQuery
          ((scripted (Inl (Error [])))\<lparr>initChatModel := Some (Error (js ''model not found''))\<rparr>)
          (ready_state\<lparr>isInitialized := False\<rparr>) (js ''hello'') (Some (js ''s1'')))
     = Inl (Error (js ''model not found'')) \<and>
   Error (js ''model not found'') \<noteq> Error (query_failed_prefix @ js ''model not found'')"
proof -
  have uninitialised:
    "fst (ensureInitialized
            ((scripted (Inl (Error [])))\<lparr>initChatModel := Some (Error (js ''model not found''))\<rparr>)
            (ready_state\<lparr>isInitialized := False\<rparr>)) = Some (Error (js ''model not found''))"
    by (simp add: ensureInitialized_fails(1))
  show ?thesis
    by (simp add: scripted_getStream monitor_drained(1) ending_def
        processQuery_uninitialised [OF uninitialised] stream_failed_prefix_def
        query_failed_prefix_def)
qed

end
